theory Spec2Isabelle
  imports Main
begin

section \<open>Errors (lib/errors.js)\<close>

text \<open>
  A thrown value. \<open>LambdaHookError code message cause isFatal\<close> is the class of
  lib/errors.js; its constructor defaults \<open>isFatal\<close> to false. The other constructors
  are the engine's own errors that the modelled code can raise, the plain object that an
  \<open>API_ERROR\<close> carries as cause, and \<open>Thrown text fatal\<close> for any other thrown value
  (\<open>fatal\<close> is the truthiness of its \<open>isFatal\<close> property).
\<close>

datatype js_error =
    LambdaHookError string string "js_error option" bool
  | ReferenceError string
  | TypeError string
  | ApiData nat
  | Thrown string bool

fun code_of :: "js_error \<Rightarrow> string option" where
  "code_of (LambdaHookError c m ca f) = Some c"
| "code_of _ = None"

fun cause_of :: "js_error \<Rightarrow> js_error option" where
  "cause_of (LambdaHookError c m ca f) = ca"
| "cause_of _ = None"

fun message_of :: "js_error \<Rightarrow> string" where
  "message_of (LambdaHookError c m ca f) = m"
| "message_of (ReferenceError m) = m"
| "message_of (TypeError m) = m"
| "message_of (ApiData n) = []"
| "message_of (Thrown m f) = m"

text \<open>\<open>error.isFatal\<close> as a condition: undefined (hence false) on the engine's errors.\<close>

fun is_fatal :: "js_error \<Rightarrow> bool" where
  "is_fatal (LambdaHookError c m ca f) = f"
| "is_fatal (Thrown m f) = f"
| "is_fatal _ = False"

section \<open>Events, requests and the world outside the module\<close>

text \<open>
  The object \<open>register\<close> of the protocol client returns, and the one \<open>nextEvent\<close>
  returns. A property the host's body does not have reads as undefined (\<open>None\<close>);
  values are kept as their text.
\<close>

record registration =
  r_extensionId :: string
  functionName :: "string option"
  functionVersion :: "string option"
  handler_name :: "string option"
  accountId :: "string option"

record next_event =
  eventType :: "string option"
  deadlineMs :: "string option"
  requestId :: "string option"
  invokedFunctionArn :: "string option"
  tracing :: "string option"
  shutdownReason :: "string option"

text \<open>
  What a handler is called with: the registration response (INIT), a polled event, or
  the object \<open>{ eventType: 'SHUTDOWN', signal }\<close> built by the signal handler.
\<close>

datatype event =
    RegistrationResponse registration
  | Polled next_event
  | SignalEvent string string

text \<open>
  The host's answer to one HTTP request: a response with status, headers (names in lower
  case, as the HTTP library delivers them) and body, or a transport failure. The body is
  given as what \<open>makeRequest\<close> makes of it: an object, JSON \<open>null\<close>, or anything
  else (another JSON value, or text that does not parse and is kept as a string).
\<close>

datatype body =
    JsonObject "(string \<times> string) list"
  | JsonNull
  | JsonOther

datatype host_reply =
    Response nat "(string \<times> string) list" body
  | TransportError string

datatype req_body =
    EventsBody "string list"
  | ErrorBody string string

record request =
  http_method :: string
  path :: string
  headers :: "(string \<times> string) list"
  payload :: "req_body option"

text \<open>
  A handler is an async callable. Its call runs the synchronous part of its body at once,
  on the caller's state; the rest of the body runs later: after the given number of ticks
  the completion runs on the state of that moment and settles the handler's promise.
\<close>

datatype settled =
    Fulfilled
  | Rejected js_error

type_synonym 'u completion = "'u \<Rightarrow> settled \<times> 'u"

type_synonym 'u handler_fn = "event \<Rightarrow> 'u \<Rightarrow> 'u \<times> nat \<times> 'u completion"

text \<open>
  Everything outside the controller's own fields: the console, the process (exit status
  once \<open>process.exit\<close> has run, the signals that have a once-listener), the host (its
  answer to the n-th request, and the requests made so far), the global object's
  properties, the state \<open>user\<close> that the handlers of the caller read and write, and
  the handlers that a dispatch has started and that were still pending when the dispatch
  returned (the phase, the ticks, the completion).
\<close>

record 'u world =
  console :: "string list"
  process_exit :: "int option"
  signal_listeners :: "string list"
  replies :: "nat \<Rightarrow> host_reply"
  requests :: "request list"
  globals :: "string \<rightharpoonup> string"
  user :: 'u
  in_flight :: "(string \<times> nat \<times> 'u completion) list"

definition log :: "string \<Rightarrow> 'u world \<Rightarrow> 'u world" where
  "log line w = w\<lparr>console := console w @ [line]\<rparr>"

section \<open>Hook registry (lib/hook-registry.js)\<close>

subsection \<open>Data\<close>

record 'h hook =
  handler :: 'h
  priority :: int

text \<open>
  What a caller can pass as one item: a function, an object (with its \<open>handler\<close>
  property when that is a function, and its \<open>priority\<close> property when present), or a
  value of any other kind (number, string, null, a nested array).
\<close>

datatype 'h item =
    Fn 'h
  | Obj "'h option" "int option"
  | Junk

datatype 'h handler_arg =
    Array "'h item list"
  | Single "'h item"

text \<open>
  The \<open>hooks\<close> object literal has the own keys INIT, INVOKE and SHUTDOWN, each holding
  an array. \<open>hooks[eventType]\<close> also resolves the names every object inherits from
  \<open>Object.prototype\<close>; those values are functions (or, for \<open>__proto__\<close>, the prototype
  object itself), all truthy and none of them an array. The table gives each inherited
  name with the \<open>length\<close> property of its value.
\<close>

type_synonym 'h registry = "string \<rightharpoonup> 'h hook list"

definition createHookRegistry :: "'h registry" where
  "createHookRegistry = [''INIT'' \<mapsto> [], ''INVOKE'' \<mapsto> [], ''SHUTDOWN'' \<mapsto> []]"

definition object_prototype :: "(string \<times> nat option) list" where
  "object_prototype =
     [(''constructor'', Some 1), (''__proto__'', None), (''toString'', Some 0),
      (''toLocaleString'', Some 0), (''valueOf'', Some 0), (''hasOwnProperty'', Some 1),
      (''isPrototypeOf'', Some 1), (''propertyIsEnumerable'', Some 1),
      (''__defineGetter__'', Some 2), (''__defineSetter__'', Some 2),
      (''__lookupGetter__'', Some 1), (''__lookupSetter__'', Some 1)]"

datatype 'h slot =
    Own "'h hook list"
  | Inherited "nat option"
  | Undefined

definition hooks_get :: "'h registry \<Rightarrow> string \<Rightarrow> 'h slot" where
  "hooks_get hooks phase =
     (case hooks phase of
        Some l \<Rightarrow> Own l
      | None \<Rightarrow> (case map_of object_prototype phase of
                  Some len \<Rightarrow> Inherited len
                | None \<Rightarrow> Undefined))"

subsection \<open>register\<close>

text \<open>
  \<open>a || b\<close> on an optional integer: the left operand is taken unless it is undefined
  or 0, the two falsy values an integer property can have.
\<close>

fun js_or :: "int option \<Rightarrow> int option \<Rightarrow> int option" where
  "js_or (Some p) b = (if p = 0 then b else Some p)"
| "js_or None b = b"

text \<open>\<open>item.priority || options.priority || 0\<close> and \<open>options.priority || 0\<close>.\<close>

definition item_priority :: "int option \<Rightarrow> int option \<Rightarrow> int" where
  "item_priority p opt = (case js_or (js_or p opt) (Some 0) of Some q \<Rightarrow> q | None \<Rightarrow> 0)"

definition default_priority :: "int option \<Rightarrow> int" where
  "default_priority opt = (case js_or opt (Some 0) of Some q \<Rightarrow> q | None \<Rightarrow> 0)"

text \<open>
  The module throws in four places, each time with \<open>throw new LambdaHookError(...)\<close>.
  It neither imports nor declares \<open>LambdaHookError\<close> (the other two modules import it
  from errors.js), so evaluating the \<open>new\<close> expression raises a ReferenceError before
  any error object is built: this is the value every one of the four throws has.
\<close>

definition class_not_in_scope :: js_error where
  "class_not_in_scope = ReferenceError ''LambdaHookError is not defined''"

definition not_a_function :: "string \<Rightarrow> js_error" where
  "not_a_function m = TypeError (''hooks[eventType].'' @ m @ '' is not a function'')"

text \<open>
  The \<open>forEach\<close> over an array argument, on the list found under the phase: each item
  is pushed as it is visited, and the first item of neither shape throws out of the loop,
  leaving the earlier pushes in place.
\<close>

fun forEach_push :: "'h hook list \<Rightarrow> 'h item list \<Rightarrow> int option \<Rightarrow> js_error option \<times> 'h hook list" where
  "forEach_push l [] opt = (None, l)"
| "forEach_push l (Obj (Some h) p # items) opt =
     forEach_push (l @ [\<lparr>handler = h, priority = item_priority p opt\<rparr>]) items opt"
| "forEach_push l (Fn h # items) opt =
     forEach_push (l @ [\<lparr>handler = h, priority = default_priority opt\<rparr>]) items opt"
| "forEach_push l (_ # items) opt = (Some class_not_in_scope, l)"

text \<open>
  The same loop when \<open>hooks[eventType]\<close> is an inherited value: the first item of an
  accepted shape calls a \<open>push\<close> that does not exist.
\<close>

fun forEach_inherited :: "'h item list \<Rightarrow> js_error option" where
  "forEach_inherited [] = None"
| "forEach_inherited (Obj (Some h) p # items) = Some (not_a_function ''push'')"
| "forEach_inherited (Fn h # items) = Some (not_a_function ''push'')"
| "forEach_inherited (_ # items) = Some class_not_in_scope"

text \<open>
  \<open>list.sort((a, b) => b.priority - a.priority)\<close>: the engine's sort is stable, so the
  result is the stable arrangement by descending priority.
\<close>

definition sort_hooks :: "'h hook list \<Rightarrow> 'h hook list" where
  "sort_hooks l = sort_key (\<lambda>e. - priority e) l"

text \<open>
  \<open>register(eventType, handler, options)\<close>; \<open>opt\<close> is \<open>options.priority\<close>. The result
  is the thrown error, if any, and the registry as the call leaves it.
\<close>

definition register :: "'h registry \<Rightarrow> string \<Rightarrow> 'h handler_arg \<Rightarrow> int option \<Rightarrow> js_error option \<times> 'h registry" where
  "register hooks phase arg opt =
     (case hooks_get hooks phase of
        Undefined \<Rightarrow> (Some class_not_in_scope, hooks)
      | Inherited len \<Rightarrow>
          (case arg of
             Array items \<Rightarrow>
               (case forEach_inherited items of
                  Some e \<Rightarrow> (Some e, hooks)
                | None \<Rightarrow> (Some (not_a_function ''sort''), hooks))
           | Single (Obj (Some h) p) \<Rightarrow> (Some (not_a_function ''push''), hooks)
           | Single (Fn h) \<Rightarrow> (Some (not_a_function ''push''), hooks)
           | Single _ \<Rightarrow> (Some class_not_in_scope, hooks))
      | Own l \<Rightarrow>
          (case arg of
             Array items \<Rightarrow>
               (case forEach_push l items opt of
                  (Some e, l') \<Rightarrow> (Some e, hooks(phase \<mapsto> l'))
                | (None, l') \<Rightarrow> (None, hooks(phase \<mapsto> sort_hooks l')))
           | Single (Obj (Some h) p) \<Rightarrow>
               (None, hooks(phase \<mapsto>
                  sort_hooks (l @ [\<lparr>handler = h, priority = item_priority p opt\<rparr>])))
           | Single (Fn h) \<Rightarrow>
               (None, hooks(phase \<mapsto>
                  sort_hooks (l @ [\<lparr>handler = h, priority = default_priority opt\<rparr>])))
           | Single _ \<Rightarrow> (Some class_not_in_scope, hooks)))"

subsection \<open>executeHooks\<close>

text \<open>
  \<open>hooks[eventType].map(...)\<close>: each handler is called in list order, which runs the
  synchronous part of each on the caller's state, and gives one pending promise per
  handler.
\<close>

fun launch :: "event \<Rightarrow> 'u handler_fn hook list \<Rightarrow> 'u \<Rightarrow> (nat \<times> 'u completion) list \<times> 'u" where
  "launch ev [] u = ([], u)"
| "launch ev (h # hs) u =
     (case handler h ev u of
        (u1, t, k) \<Rightarrow> (case launch ev hs u1 of (ps, u2) \<Rightarrow> ((t, k) # ps, u2)))"

text \<open>
  \<open>await Promise.all(hookPromises)\<close>, on the pending handlers in the order in which
  they are due. A handler that fulfils lets the wait go on. The first one that rejects is
  caught by the arrow function given to \<open>map\<close>, which logs and then throws; the throw
  rejects \<open>Promise.all\<close> and so the call, with the handlers due later still pending.
\<close>

fun await_all :: "string \<Rightarrow> (nat \<times> 'u completion) list \<Rightarrow> 'u world \<Rightarrow> js_error option \<times> (nat \<times> 'u completion) list \<times> 'u world" where
  "await_all phase [] w = (None, [], w)"
| "await_all phase ((t, k) # ps) w =
     (case k (user w) of
        (Fulfilled, u) \<Rightarrow> await_all phase ps (w\<lparr>user := u\<rparr>)
      | (Rejected error, u) \<Rightarrow>
          (Some class_not_in_scope, ps,
           log (''Error executing '' @ phase @ '' hook:'') (w\<lparr>user := u\<rparr>)))"

text \<open>
  The handlers are due in the order of their ticks, and in list order where the ticks
  are equal.
\<close>

definition due_order :: "(nat \<times> 'u completion) list \<Rightarrow> (nat \<times> 'u completion) list" where
  "due_order ps = sort_key fst ps"

definition executeHooks :: "'u handler_fn registry \<Rightarrow> string \<Rightarrow> event \<Rightarrow> 'u world \<Rightarrow> js_error option \<times> 'u world" where
  "executeHooks hooks phase ev w =
     (case hooks_get hooks phase of
        Undefined \<Rightarrow> (None, w)
      | Inherited len \<Rightarrow>
          (if len = Some 0 then (None, w) else (Some (not_a_function ''map''), w))
      | Own l \<Rightarrow>
          (if l = [] then (None, w)
           else (case launch ev l (user w) of
                   (ps, u) \<Rightarrow>
                     (case await_all phase (due_order ps) (w\<lparr>user := u\<rparr>) of
                        (r, pending, w') \<Rightarrow>
                          (r, w'\<lparr>in_flight := in_flight w' @ map (Pair phase) pending\<rparr>)))))"

section \<open>Protocol client (lib/extension-client.js)\<close>

fun digits :: "nat \<Rightarrow> string" where
  "digits n =
     (if n < 10 then [char_of (48 + n)]
      else digits (n div 10) @ [char_of (48 + n mod 10)])"

declare digits.simps [simp del]

text \<open>
  \<open>makeRequest\<close>: the request goes out and the promise settles with the host's next
  answer. A status from 200 to 299 resolves; any other rejects with \<open>API_ERROR\<close>; a
  transport failure rejects with \<open>NETWORK_ERROR\<close>. Neither error is given a fatal flag.
\<close>

definition makeRequest :: "request \<Rightarrow> 'u world \<Rightarrow> (js_error + (nat \<times> (string \<times> string) list \<times> body)) \<times> 'u world" where
  "makeRequest rq w =
     (case replies w (length (requests w)) of
        Response st hs b \<Rightarrow>
          (if 200 \<le> st \<and> st < 300 then (Inr (st, hs, b), w\<lparr>requests := requests w @ [rq]\<rparr>)
           else (Inl (LambdaHookError ''API_ERROR''
                        (''API request failed with status '' @ digits st)
                        (Some (ApiData st)) False),
                 w\<lparr>requests := requests w @ [rq]\<rparr>))
      | TransportError m \<Rightarrow>
          (Inl (LambdaHookError ''NETWORK_ERROR'' ''Network error during API request''
                  (Some (Thrown m False)) False),
           w\<lparr>requests := requests w @ [rq]\<rparr>))"

text \<open>
  A value used as a condition: undefined and the empty string are falsy. Reading a
  property of the response body gives undefined unless the body is an object, and throws
  a TypeError when the body is \<open>null\<close>.
\<close>

definition truthy :: "string option \<Rightarrow> bool" where
  "truthy v = (case v of None \<Rightarrow> False | Some s \<Rightarrow> s \<noteq> [])"

record client_options =
  o_extensionName :: string
  o_includeAccountId :: bool

definition client_register :: "client_options \<Rightarrow> string list \<Rightarrow> 'u world \<Rightarrow> (js_error + registration) \<times> 'u world" where
  "client_register opts events w =
     (case makeRequest
             \<lparr>http_method = ''POST'', path = ''register'',
              headers = (''Lambda-Extension-Name'', o_extensionName opts) #
                (if o_includeAccountId opts
                 then [(''Lambda-Extension-Accept-Feature'', ''accountId'')] else []),
              payload = Some (EventsBody events)\<rparr> w of
        (Inl e, w') \<Rightarrow> (Inl e, w')
      | (Inr (st, hs, b), w') \<Rightarrow>
          (if \<not> truthy (map_of hs ''lambda-extension-identifier'')
           then (Inl (LambdaHookError ''INVALID_RESPONSE''
                        ''Extension ID not received in registration response'' None False), w')
           else (case b of
                   JsonNull \<Rightarrow> (Inl (TypeError
                     ''Cannot read properties of null (reading functionName)''), w')
                 | JsonOther \<Rightarrow>
                     (Inr \<lparr>r_extensionId = the (map_of hs ''lambda-extension-identifier''),
                           functionName = None, functionVersion = None,
                           handler_name = None, accountId = None\<rparr>, w')
                 | JsonObject kvs \<Rightarrow>
                     (Inr \<lparr>r_extensionId = the (map_of hs ''lambda-extension-identifier''),
                           functionName = map_of kvs ''functionName'',
                           functionVersion = map_of kvs ''functionVersion'',
                           handler_name = map_of kvs ''handler'',
                           accountId = map_of kvs ''accountId''\<rparr>, w'))))"

definition nextEvent :: "string option \<Rightarrow> 'u world \<Rightarrow> (js_error + next_event) \<times> 'u world" where
  "nextEvent extId w =
     (if \<not> truthy extId
      then (Inl (LambdaHookError ''INVALID_STATE''
                   ''Extension ID is required for next event'' None False), w)
      else (case makeRequest
                   \<lparr>http_method = ''GET'', path = ''event/next'',
                    headers = [(''Lambda-Extension-Identifier'', the extId)],
                    payload = None\<rparr> w of
              (Inl e, w') \<Rightarrow> (Inl e, w')
            | (Inr (st, hs, b), w') \<Rightarrow>
                (case b of
                   JsonNull \<Rightarrow> (Inl (TypeError
                     ''Cannot read properties of null (reading eventType)''), w')
                 | JsonOther \<Rightarrow>
                     (Inr \<lparr>eventType = None, deadlineMs = None, requestId = None,
                           invokedFunctionArn = None, tracing = None,
                           shutdownReason = None\<rparr>, w')
                 | JsonObject kvs \<Rightarrow>
                     (Inr \<lparr>eventType = map_of kvs ''eventType'',
                           deadlineMs = map_of kvs ''deadlineMs'',
                           requestId = map_of kvs ''requestId'',
                           invokedFunctionArn = map_of kvs ''invokedFunctionArn'',
                           tracing = map_of kvs ''tracing'',
                           shutdownReason = map_of kvs ''shutdownReason''\<rparr>, w'))))"

text \<open>
  \<open>reportInitError\<close> and \<open>reportExitError\<close> take the error only and read an identifier
  \<open>extensionId\<close>. No parameter, local, closure variable of \<open>createExtensionClient\<close> or
  module binding has that name, so the reference resolves on the global object, and in
  module code an unresolvable reference throws a ReferenceError. The stack lines of the
  report body are left out of \<open>ErrorBody\<close>.
\<close>

definition report_error :: "string \<Rightarrow> string \<Rightarrow> js_error \<Rightarrow> 'u world \<Rightarrow> js_error option \<times> 'u world" where
  "report_error at what err w =
     (case globals w ''extensionId'' of
        None \<Rightarrow> (Some (ReferenceError ''extensionId is not defined''), w)
      | Some extId \<Rightarrow>
          (if extId = []
           then (Some (LambdaHookError ''INVALID_STATE''
                         (''Cannot report '' @ what @ '' error: Extension not registered'')
                         None False), w)
           else (let errorType = (if truthy (code_of err) then the (code_of err)
                                  else ''Extension.UnknownReason'');
                     errorMessage = (if message_of err \<noteq> [] then message_of err
                                     else ''Unknown error'')
                 in case makeRequest
                           \<lparr>http_method = ''POST'', path = at,
                            headers = [(''Lambda-Extension-Identifier'', extId),
                                       (''Lambda-Extension-Function-Error-Type'', errorType)],
                            payload = Some (ErrorBody errorMessage errorType)\<rparr> w of
                      (Inl e, w') \<Rightarrow> (Some e, w')
                    | (Inr r, w') \<Rightarrow> (None, w'))))"

definition reportInitError :: "js_error \<Rightarrow> 'u world \<Rightarrow> js_error option \<times> 'u world" where
  "reportInitError = report_error ''init/error'' ''init''"

definition reportExitError :: "js_error \<Rightarrow> 'u world \<Rightarrow> js_error option \<times> 'u world" where
  "reportExitError = report_error ''exit/error'' ''exit''"

text \<open>The object \<open>createExtensionClient\<close> returns: its four operations.\<close>

record 'u client =
  c_register :: "string list \<Rightarrow> 'u world \<Rightarrow> (js_error + registration) \<times> 'u world"
  c_nextEvent :: "string option \<Rightarrow> 'u world \<Rightarrow> (js_error + next_event) \<times> 'u world"
  c_reportInitError :: "js_error \<Rightarrow> 'u world \<Rightarrow> js_error option \<times> 'u world"
  c_reportExitError :: "js_error \<Rightarrow> 'u world \<Rightarrow> js_error option \<times> 'u world"

definition createExtensionClient :: "client_options \<Rightarrow> 'u client" where
  "createExtensionClient opts =
     \<lparr>c_register = client_register opts, c_nextEvent = nextEvent,
      c_reportInitError = reportInitError, c_reportExitError = reportExitError\<rparr>"

section \<open>Lifecycle controller (lib/lambda-hooks.js)\<close>

text \<open>
  The constructor's options object; a property that is absent is \<open>None\<close>. The instance
  holds the private fields of the class.
\<close>

record hooks_options =
  extensionName :: "string option"
  given_extensionType :: "string option"
  given_initLoad :: "string option"
  includeAccountId :: "bool option"

record 'u lambda_hooks =
  extensionClient :: "'u client"
  hookRegistry :: "'u handler_fn registry"
  isRunning :: bool
  extensionId :: "string option"
  extensionType :: string
  initLoad :: string

definition text_of :: "string option \<Rightarrow> string" where
  "text_of v = (case v of None \<Rightarrow> ''undefined'' | Some s \<Rightarrow> s)"

definition init_error :: "string \<Rightarrow> js_error" where
  "init_error m = LambdaHookError ''INIT_ERROR'' m None False"

definition new_LambdaHooks :: "hooks_options \<Rightarrow> js_error + 'u lambda_hooks" where
  \<open>new_LambdaHooks options =
     (if \<not> truthy (extensionName options)
      then Inl (init_error ''Extension name is required'')
      else if given_extensionType options \<notin> set [Some ''internal'', Some ''external'']
      then Inl (init_error (''Invalid extension type: '' @ text_of (given_extensionType options)
                  @ ''. Extension type must be "internal" or "external"''))
      else if given_initLoad options \<notin> set [Some ''before'', Some ''after'']
      then Inl (init_error (''Invalid init event load behavior: ''
                  @ text_of (given_initLoad options)
                  @ ''. Event init load must be "before" or "after"''))
      else Inr \<lparr>extensionClient = createExtensionClient
                   \<lparr>o_extensionName = the (extensionName options),
                    o_includeAccountId =
                      (case includeAccountId options of None \<Rightarrow> False | Some b \<Rightarrow> b)\<rparr>,
                hookRegistry = createHookRegistry,
                isRunning = False,
                extensionId = None,
                extensionType = the (given_extensionType options),
                initLoad = the (given_initLoad options)\<rparr>)\<close>

definition onInit :: "'u lambda_hooks \<Rightarrow> 'u handler_fn handler_arg \<Rightarrow> int option \<Rightarrow> js_error option \<times> 'u lambda_hooks" where
  "onInit c arg opt =
     (case register (hookRegistry c) ''INIT'' arg opt of
        (e, r) \<Rightarrow> (e, c\<lparr>hookRegistry := r\<rparr>))"

definition onInvoke :: "'u lambda_hooks \<Rightarrow> 'u handler_fn handler_arg \<Rightarrow> int option \<Rightarrow> js_error option \<times> 'u lambda_hooks" where
  "onInvoke c arg opt =
     (case register (hookRegistry c) ''INVOKE'' arg opt of
        (e, r) \<Rightarrow> (e, c\<lparr>hookRegistry := r\<rparr>))"

definition onShutdown :: "'u lambda_hooks \<Rightarrow> 'u handler_fn handler_arg \<Rightarrow> int option \<Rightarrow> js_error option \<times> 'u lambda_hooks" where
  "onShutdown c arg opt =
     (case register (hookRegistry c) ''SHUTDOWN'' arg opt of
        (e, r) \<Rightarrow> (e, c\<lparr>hookRegistry := r\<rparr>))"

subsection \<open>Dispatch\<close>

definition handleInvoke :: "'u lambda_hooks \<Rightarrow> event \<Rightarrow> 'u world \<Rightarrow> 'u world" where
  "handleInvoke c ev w =
     (case executeHooks (hookRegistry c) ''INVOKE'' ev w of
        (None, w') \<Rightarrow> w'
      | (Some e, w') \<Rightarrow> log ''Error executing invoke hooks:'' w')"

definition handleShutdown :: "'u lambda_hooks \<Rightarrow> event \<Rightarrow> 'u world \<Rightarrow> 'u lambda_hooks \<times> 'u world" where
  "handleShutdown c ev w =
     (case executeHooks (hookRegistry c) ''SHUTDOWN'' ev w of
        (None, w') \<Rightarrow> (c\<lparr>isRunning := False\<rparr>, w')
      | (Some e, w') \<Rightarrow> (c\<lparr>isRunning := False\<rparr>, log ''Error executing shutdown hooks:'' w'))"

subsection \<open>The poll loop\<close>

datatype loop_exit =
    Break
  | Continue

text \<open>One pass through the body of the \<open>while\<close> loop of \<open>#startEventLoop\<close>.\<close>

definition loop_body :: "'u lambda_hooks \<Rightarrow> 'u world \<Rightarrow> loop_exit \<times> 'u lambda_hooks \<times> 'u world" where
  "loop_body c w =
     (case c_nextEvent (extensionClient c) (extensionId c) w of
        (Inr ev, w1) \<Rightarrow>
          (if eventType ev = Some ''SHUTDOWN''
           then (case handleShutdown c (Polled ev) w1 of (c', w2) \<Rightarrow> (Break, c', w2))
           else if eventType ev = Some ''INVOKE''
           then (Continue, c, handleInvoke c (Polled ev) w1)
           else (Continue, c, w1))
      | (Inl error, w1) \<Rightarrow>
          (if is_fatal error
           then (case c_reportExitError (extensionClient c) error
                        (log ''Error in event loop:'' w1) of
                   (None, w2) \<Rightarrow> (Break, c\<lparr>isRunning := False\<rparr>, w2)
                 | (Some reportError, w2) \<Rightarrow>
                     (Break, c\<lparr>isRunning := False\<rparr>, log ''Failed to report exit error:'' w2))
           else (Continue, c, log ''Error in event loop:'' w1)))"

text \<open>
  \<open>#startEventLoop\<close>. The first argument bounds the number of passes; \<open>None\<close> means
  the loop is still running when the bound is reached.
\<close>

fun startEventLoop :: "nat \<Rightarrow> 'u lambda_hooks \<Rightarrow> 'u world \<Rightarrow> ('u lambda_hooks \<times> 'u world) option" where
  "startEventLoop 0 c w = (if \<not> isRunning c then Some (c, w) else None)"
| "startEventLoop (Suc n) c w =
     (if \<not> isRunning c then Some (c, w)
      else (case loop_body c w of
              (Break, c', w') \<Rightarrow> Some (c', w')
            | (Continue, c', w') \<Rightarrow> startEventLoop n c' w'))"

subsection \<open>start\<close>

definition already_running :: js_error where
  "already_running = LambdaHookError ''ALREADY_RUNNING'' ''Extension is already running'' None False"

text \<open>
  The \<open>catch\<close> block of \<open>start\<close>: the error is wrapped, a report to the host is
  attempted, and the wrapped error is rethrown.
\<close>

definition start_failed :: "'u lambda_hooks \<Rightarrow> js_error \<Rightarrow> 'u world \<Rightarrow> js_error option \<times> 'u lambda_hooks \<times> 'u world" where
  "start_failed c error w =
     (let wrappedError = LambdaHookError ''EXTENSION_REGISTRATION_FAILED''
                           ''Failed to register extension with Lambda'' (Some error) False
      in case c_reportInitError (extensionClient c) wrappedError w of
           (None, w') \<Rightarrow> (Some wrappedError, c, w')
         | (Some reportError, w') \<Rightarrow>
             (Some wrappedError, c, log ''Failed to report initialization error:'' w'))"

text \<open>
  The part of \<open>start\<close> after the identifier is stored: the INIT hooks, the two
  once-listeners, the flag. The listener given to \<open>process.once\<close> is the method
  \<open>this.#handleSignal\<close> itself, with no receiver bound to it.
\<close>

definition start_init :: "'u lambda_hooks \<Rightarrow> registration \<Rightarrow> 'u world \<Rightarrow> js_error option \<times> 'u lambda_hooks \<times> 'u world" where
  "start_init c registrationResponse w =
     (case executeHooks (hookRegistry c) ''INIT'' (RegistrationResponse registrationResponse) w of
        (Some e, w') \<Rightarrow> start_failed c e w'
      | (None, w') \<Rightarrow>
          (None, c\<lparr>isRunning := True\<rparr>,
           w'\<lparr>signal_listeners := signal_listeners w' @ [''SIGINT'', ''SIGTERM'']\<rparr>))"

text \<open>
  \<open>start()\<close> up to the point where it launches the poll loop, which it does not await:
  the promise of \<open>start\<close> settles with the result given here, and the loop goes on as
  \<open>startEventLoop\<close> from the controller and world returned.
\<close>

definition start :: "'u lambda_hooks \<Rightarrow> 'u world \<Rightarrow> js_error option \<times> 'u lambda_hooks \<times> 'u world" where
  "start c w =
     (if isRunning c then (Some already_running, c, w)
      else (case c_register (extensionClient c)
                   (if extensionType c = ''internal'' then [''INVOKE'']
                    else [''INVOKE'', ''SHUTDOWN'']) w of
              (Inl e, w1) \<Rightarrow> start_failed c e w1
            | (Inr registrationResponse, w1) \<Rightarrow>
                (let c1 = c\<lparr>extensionId := Some (r_extensionId registrationResponse)\<rparr>
                 in if initLoad c1 = ''after''
                    then (case c_nextEvent (extensionClient c1) (extensionId c1) w1 of
                            (Inl e, w2) \<Rightarrow> start_failed c1 e w2
                          | (Inr ev, w2) \<Rightarrow> start_init c1 registrationResponse w2)
                    else start_init c1 registrationResponse w1)))"

subsection \<open>Termination signals\<close>

text \<open>
  The receiver of a method call. Reading the private member \<open>#handleShutdown\<close> of a
  receiver that is not an instance of the class throws a TypeError.
\<close>

datatype receiver =
    Instance
  | ProcessObject

definition process_exit_with :: "int \<Rightarrow> 'u world \<Rightarrow> 'u world" where
  "process_exit_with n w = w\<lparr>process_exit := Some n\<rparr>"

text \<open>
  \<open>#handleSignal(signal)\<close> called on the given receiver: the shutdown dispatch inside
  \<open>try\<close>, and \<open>process.exit(0)\<close> in \<open>finally\<close>.
\<close>

fun handleSignal :: "receiver \<Rightarrow> string \<Rightarrow> 'u lambda_hooks \<Rightarrow> 'u world \<Rightarrow> js_error option \<times> 'u lambda_hooks \<times> 'u world" where
  "handleSignal Instance signal c w =
     (case handleShutdown c (SignalEvent ''SHUTDOWN'' signal)
             (log (''Received '' @ signal @ '', Gracefully shutting down...'') w) of
        (c', w') \<Rightarrow> (None, c', process_exit_with 0 w'))"
| "handleSignal ProcessObject signal c w =
     (Some (TypeError ''Receiver must be an instance of class LambdaHooks''),
      c,
      process_exit_with 0 (log (''Received '' @ signal @ '', Gracefully shutting down...'') w))"

text \<open>
  The process receives a termination signal. If a once-listener is installed for it, the
  listener is removed and called the way an event emitter calls a listener, with the
  emitter (the process object) as receiver. Nothing runs once the process has exited; a
  signal without listener ends the process with the status of the signal's default action.
\<close>

definition signal_status :: "string \<Rightarrow> int" where
  "signal_status signal = (if signal = ''SIGINT'' then 130 else 143)"

definition deliver_signal :: "string \<Rightarrow> 'u lambda_hooks \<Rightarrow> 'u world \<Rightarrow> 'u lambda_hooks \<times> 'u world" where
  "deliver_signal signal c w =
     (if process_exit w \<noteq> None then (c, w)
      else if signal \<in> set (signal_listeners w)
      then (case handleSignal ProcessObject signal c
                   (w\<lparr>signal_listeners := remove1 signal (signal_listeners w)\<rparr>) of
              (e, c', w') \<Rightarrow> (c', w'))
      else (c, process_exit_with (signal_status signal) w))"

section \<open>Notions used in the statements\<close>

subsection \<open>Registration sequences and launch order\<close>


text \<open>An item of one of the two accepted shapes, and the entry it is stored as.\<close>

fun accepted :: "'h item \<Rightarrow> bool" where
  "accepted (Fn h) = True"
| "accepted (Obj (Some h) p) = True"
| "accepted _ = False"

fun entry_of :: "int option \<Rightarrow> 'h item \<Rightarrow> 'h hook option" where
  "entry_of opt (Fn h) = Some \<lparr>handler = h, priority = default_priority opt\<rparr>"
| "entry_of opt (Obj (Some h) p) = Some \<lparr>handler = h, priority = item_priority p opt\<rparr>"
| "entry_of opt _ = None"




subsection \<open>Handlers left pending\<close>

text \<open>
  The handlers that were pending when their dispatch returned go on running as long as
  the process lives. Each completion runs on the state of its moment; one that rejects
  is caught by the arrow function as before, which logs, and its throw goes unobserved.
  The code does not fix when, between the later steps of the controller, this happens.
\<close>

fun finish :: "(string \<times> nat \<times> 'u completion) list \<Rightarrow> 'u world \<Rightarrow> 'u world" where
  "finish [] w = w"
| "finish ((phase, t, k) # ps) w =
     (case k (user w) of
        (Fulfilled, u) \<Rightarrow> finish ps (w\<lparr>user := u\<rparr>)
      | (Rejected error, u) \<Rightarrow>
          finish ps (log (''Error executing '' @ phase @ '' hook:'') (w\<lparr>user := u\<rparr>)))"

definition settle_in_flight :: "'u world \<Rightarrow> 'u world" where
  "settle_in_flight w =
     (if process_exit w \<noteq> None then w else finish (in_flight w) (w\<lparr>in_flight := []\<rparr>))"

subsection \<open>Example data\<close>

text \<open>
  A process that has just started; three handlers that note their name in the caller's
  state when they are called (the first completes at once, the second then throws, the
  third completes after some ticks and notes that too); the options of
  examples/internal-extension.js; and a host that answers the second request with a
  SHUTDOWN event and every other request with a registration response.
\<close>

definition fresh_process :: "(nat \<Rightarrow> host_reply) \<Rightarrow> 'u \<Rightarrow> 'u world" where
  "fresh_process host u =
     \<lparr>console = [], process_exit = None, signal_listeners = [], replies = host,
      requests = [], globals = Map.empty, user = u, in_flight = []\<rparr>"

definition recording :: "string \<Rightarrow> string list handler_fn" where
  "recording name = (\<lambda>ev u. (u @ [name], 0, (\<lambda>u'. (Fulfilled, u'))))"

definition throwing :: "string \<Rightarrow> js_error \<Rightarrow> string list handler_fn" where
  "throwing name e = (\<lambda>ev u. (u @ [name], 0, (\<lambda>u'. (Rejected e, u'))))"

definition slow :: "string \<Rightarrow> nat \<Rightarrow> string list handler_fn" where
  "slow name t = (\<lambda>ev u. (u @ [name], t, (\<lambda>u'. (Fulfilled, u' @ [name @ '' done'']))))"

definition example_options :: hooks_options where
  "example_options =
     \<lparr>extensionName = Some ''metrics-collector-extension'',
      given_extensionType = Some ''internal'',
      given_initLoad = Some ''before'',
      includeAccountId = None\<rparr>"

definition example_host :: "nat \<Rightarrow> host_reply" where
  "example_host n =
     (if n = 1
      then Response 200 [] (JsonObject [(''eventType'', ''SHUTDOWN''),
                                        (''shutdownReason'', ''SPINDOWN'')])
      else Response 200 [(''lambda-extension-identifier'', ''ext-1'')]
             (JsonObject [(''functionName'', ''my-function'')]))"

text \<open>
  The controller built from the example options, with one SHUTDOWN handler registered
  through \<open>onShutdown\<close>, the same controller once \<open>start\<close> has returned, and once
  the poll loop has received the SHUTDOWN event.
\<close>

definition example_controller :: "string list lambda_hooks" where
  "example_controller =
     \<lparr>extensionClient = createExtensionClient
        \<lparr>o_extensionName = ''metrics-collector-extension'', o_includeAccountId = False\<rparr>,
      hookRegistry = createHookRegistry(''SHUTDOWN'' \<mapsto> [\<lparr>handler = recording ''bye'', priority = 0\<rparr>]),
      isRunning = False,
      extensionId = None,
      extensionType = ''internal'',
      initLoad = ''before''\<rparr>"

definition running_controller :: "string list lambda_hooks" where
  "running_controller = example_controller\<lparr>extensionId := Some ''ext-1'', isRunning := True\<rparr>"

text \<open>
  The world in which the example controller is started, the world after \<open>start\<close>,
  and (below) the world after the poll loop has ended.
\<close>

definition example_world :: "string list world" where
  "example_world = fresh_process example_host []"

definition running_world :: "string list world" where
  "running_world =
     example_world
       \<lparr>requests := [\<lparr>http_method = ''POST'', path = ''register'',
                       headers = [(''Lambda-Extension-Name'', ''metrics-collector-extension'')],
                       payload = Some (EventsBody [''INVOKE''])\<rparr>],
        signal_listeners := [''SIGINT'', ''SIGTERM'']\<rparr>"

definition terminated_controller :: "string list lambda_hooks" where
  "terminated_controller = running_controller\<lparr>isRunning := False\<rparr>"

definition terminated_world :: "string list world" where
  "terminated_world =
     running_world
       \<lparr>requests := requests running_world @
          [\<lparr>http_method = ''GET'', path = ''event/next'',
            headers = [(''Lambda-Extension-Identifier'', ''ext-1'')],
            payload = None\<rparr>],
        user := [''bye'']\<rparr>"

text \<open>A client whose \<open>nextEvent\<close> rejects with a given error.\<close>

definition client_rejecting :: "js_error \<Rightarrow> 'u client" where
  "client_rejecting e =
     (createExtensionClient \<lparr>o_extensionName = ''x'', o_includeAccountId = False\<rparr>)
       \<lparr>c_nextEvent := (\<lambda>extId w. (Inl e, w))\<rparr>"

section \<open>The registry: normalisation, order, failure\<close>

subsection \<open>Priorities\<close>

lemma item_priority_nonzero:
  "p \<noteq> 0 \<Longrightarrow> item_priority (Some p) opt = p"
  by (simp add: item_priority_def)

lemma item_priority_absent:
  "item_priority None opt = default_priority opt"
  by (simp add: item_priority_def default_priority_def)

lemma item_priority_no_default:
  "item_priority (Some p) None = p"
  by (simp add: item_priority_def)

lemma default_priority_given:
  "default_priority (Some p) = p"
  by (simp add: default_priority_def)

text \<open>
  A single item and the array holding just that item leave the same registry, and a bare
  function registered under a default priority is stored like the object that names the
  same priority itself.
\<close>

lemma register_single_as_array:
  assumes "accepted it"
  shows "register hooks phase (Single it) opt = register hooks phase (Array [it]) opt"
proof (cases it)
  case (Fn h)
  then show ?thesis
    by (simp add: register_def not_a_function_def split: slot.splits)
next
  case (Obj ho p)
  with assms obtain h where "ho = Some h" by (cases ho) auto
  with Obj show ?thesis
    by (simp add: register_def not_a_function_def split: slot.splits)
next
  case Junk
  with assms show ?thesis by simp
qed

lemma register_bare_as_object:
  "register hooks phase (Single (Fn h)) (Some p) = register hooks phase (Single (Obj (Some h) (Some p))) None"
  by (simp add: register_def item_priority_no_default default_priority_given split: slot.splits)

text \<open>
  C1. The stored priority is \<open>item.priority || options.priority || 0\<close>. An item
  registered as \<open>{handler, priority: 0}\<close> under \<open>options.priority = 5\<close> is stored with
  priority 5, as a single object and as an array item alike: the priority 0 that the item
  names is replaced by the default.
\<close>

theorem explicit_zero_priority_takes_default:
  "register createHookRegistry ''INVOKE'' (Single (Obj (Some h) (Some 0))) (Some 5)
     = (None, createHookRegistry(''INVOKE'' \<mapsto> [\<lparr>handler = h, priority = 5\<rparr>]))
   \<and> register createHookRegistry ''INVOKE'' (Array [Obj (Some h) (Some 0)]) (Some 5)
     = (None, createHookRegistry(''INVOKE'' \<mapsto> [\<lparr>handler = h, priority = 5\<rparr>]))"
  by (simp add: register_def hooks_get_def createHookRegistry_def item_priority_def sort_hooks_def)

subsection \<open>What one call does to the list of its phase\<close>










subsection \<open>Sequences of calls\<close>









subsection \<open>Failing calls\<close>

lemma forEach_push_accepted:
  "list_all accepted pre \<Longrightarrow>
     forEach_push l (pre @ items) opt
       = forEach_push (l @ List.map_filter (entry_of opt) pre) items opt"
proof (induction pre arbitrary: l)
  case Nil
  show ?case by simp
next
  case (Cons it pre)
  then have acc: "accepted it" and rest: "list_all accepted pre" by simp_all
  show ?case
  proof (cases it)
    case (Fn h)
    then show ?thesis using Cons.IH [OF rest] by simp
  next
    case (Obj ho p)
    with acc obtain h where "ho = Some h" by (cases ho) auto
    with Obj show ?thesis using Cons.IH [OF rest] by simp
  next
    case Junk
    with acc show ?thesis by simp
  qed
qed

lemma forEach_push_rejected:
  "\<not> accepted bad \<Longrightarrow> forEach_push l (bad # rest) opt = (Some class_not_in_scope, l)"
  by (cases "(l, bad # rest, opt)" rule: forEach_push.cases) auto

lemma register_failed_unknown_or_inherited:
  "hooks phase = None \<Longrightarrow> snd (register hooks phase arg opt) = hooks"
  by (auto simp: register_def hooks_get_def
      split: option.splits handler_arg.splits item.splits)

text \<open>
  What does hold of a failing call: an array whose items before the first invalid one
  are all valid leaves their entries appended to the list of a known phase, in order and
  unsorted, and a call under a name that is not a key of the registry changes nothing.
\<close>

lemma register_array_stops_at_invalid_item:
  assumes "hooks phase = Some l" and "list_all accepted pre" and "\<not> accepted bad"
  shows "register hooks phase (Array (pre @ bad # rest)) opt
           = (Some class_not_in_scope, hooks(phase \<mapsto> l @ List.map_filter (entry_of opt) pre))"
proof -
  have "forEach_push l (pre @ bad # rest) opt
          = (Some class_not_in_scope, l @ List.map_filter (entry_of opt) pre)"
    using forEach_push_accepted [OF assms(2), of l "bad # rest" opt]
      forEach_push_rejected [OF assms(3)] by simp
  then show ?thesis
    using assms(1) by (simp add: register_def hooks_get_def)
qed

lemma register_unresolved_name:
  "hooks_get hooks phase = Undefined
     \<Longrightarrow> register hooks phase arg opt = (Some class_not_in_scope, hooks)"
  by (simp add: register_def)

text \<open>
  C10. On a registry whose INVOKE list holds A, a call with the array B (priority 20), a
  number, C fails at the number, with B appended behind A and the list left unsorted,
  but the error is a ReferenceError and has no code \<open>INVALID_HANDLER\<close>. A call under the
  unknown phase FOO leaves the registry unchanged, but fails with the same ReferenceError
  and not with \<open>INVALID_EVENT_TYPE\<close>. A call under the name \<open>constructor\<close>, which the
  hooks object inherits, passes the test of the phase and fails on \<open>push\<close> with a
  TypeError.
\<close>

theorem failing_register_calls_raise_other_errors:
  "register (createHookRegistry(''INVOKE'' \<mapsto> [\<lparr>handler = ''A'', priority = 0\<rparr>])) ''INVOKE''
      (Array [Obj (Some ''B'') (Some 20), Junk, Fn ''C'']) None
     = (Some (ReferenceError ''LambdaHookError is not defined''),
        createHookRegistry(''INVOKE'' \<mapsto>
          [\<lparr>handler = ''A'', priority = 0\<rparr>, \<lparr>handler = ''B'', priority = 20\<rparr>]))
   \<and> register (createHookRegistry :: string registry) ''FOO'' (Single (Fn ''A'')) None
     = (Some (ReferenceError ''LambdaHookError is not defined''), createHookRegistry)
   \<and> register (createHookRegistry :: string registry) ''constructor'' (Single (Fn ''A'')) None
     = (Some (TypeError ''hooks[eventType].push is not a function''), createHookRegistry)
   \<and> code_of (ReferenceError ''LambdaHookError is not defined'') = None
   \<and> code_of (TypeError ''hooks[eventType].push is not a function'') = None"
  by (simp add: register_def hooks_get_def createHookRegistry_def object_prototype_def
      not_a_function_def class_not_in_scope_def item_priority_def)

section \<open>The registry: dispatch\<close>

lemma await_all_error:
  "fst (await_all phase ps w) = None \<or> fst (await_all phase ps w) = Some class_not_in_scope"
  by (induction phase ps w rule: await_all.induct)
     (auto split: prod.splits settled.splits)

text \<open>Whatever a handler throws, the call fails with the same ReferenceError.\<close>

lemma executeHooks_error:
  assumes "hooks phase = Some l"
  shows "fst (executeHooks hooks phase ev w) = None
         \<or> fst (executeHooks hooks phase ev w) = Some class_not_in_scope"
proof (cases "l = []")
  case True
  with assms show ?thesis by (simp add: executeHooks_def hooks_get_def)
next
  case False
  obtain ps u where l: "launch ev l (user w) = (ps, u)"
    by (cases "launch ev l (user w)")
  obtain r pending w' where a: "await_all phase (due_order ps) (w\<lparr>user := u\<rparr>) = (r, pending, w')"
    by (cases "await_all phase (due_order ps) (w\<lparr>user := u\<rparr>)")
  have "fst (executeHooks hooks phase ev w) = r"
    using assms False l a by (simp add: executeHooks_def hooks_get_def)
  moreover have "r = None \<or> r = Some class_not_in_scope"
    using await_all_error [of phase "due_order ps" "w\<lparr>user := u\<rparr>"] a by simp
  ultimately show ?thesis by simp
qed

text \<open>
  C6. The INVOKE phase holds a handler that throws and a handler that succeeds after five
  ticks. \<open>executeHooks\<close> fails, but with a ReferenceError that has no code and no cause:
  the error of the handler is logged and lost. At that point both handlers have been
  called and the second is still pending; it completes afterwards, and its effect occurs.
\<close>

theorem executeHooks_failure_is_not_wrapped:
  "fst (executeHooks (createHookRegistry(''INVOKE'' \<mapsto>
             [\<lparr>handler = throwing ''T'' (Thrown ''boom'' False), priority = 0\<rparr>,
              \<lparr>handler = slow ''R'' 5, priority = 0\<rparr>]))
           ''INVOKE'' (SignalEvent ''SHUTDOWN'' ''SIGTERM'') example_world)
     = Some (ReferenceError ''LambdaHookError is not defined'')
   \<and> code_of (ReferenceError ''LambdaHookError is not defined'') = None
   \<and> cause_of (ReferenceError ''LambdaHookError is not defined'') = None
   \<and> user (snd (executeHooks (createHookRegistry(''INVOKE'' \<mapsto>
             [\<lparr>handler = throwing ''T'' (Thrown ''boom'' False), priority = 0\<rparr>,
              \<lparr>handler = slow ''R'' 5, priority = 0\<rparr>]))
           ''INVOKE'' (SignalEvent ''SHUTDOWN'' ''SIGTERM'') example_world))
     = [''T'', ''R'']
   \<and> console (snd (executeHooks (createHookRegistry(''INVOKE'' \<mapsto>
             [\<lparr>handler = throwing ''T'' (Thrown ''boom'' False), priority = 0\<rparr>,
              \<lparr>handler = slow ''R'' 5, priority = 0\<rparr>]))
           ''INVOKE'' (SignalEvent ''SHUTDOWN'' ''SIGTERM'') example_world))
     = [''Error executing INVOKE hook:'']
   \<and> map (\<lambda>(phase, t, k). (phase, t))
        (in_flight (snd (executeHooks (createHookRegistry(''INVOKE'' \<mapsto>
             [\<lparr>handler = throwing ''T'' (Thrown ''boom'' False), priority = 0\<rparr>,
              \<lparr>handler = slow ''R'' 5, priority = 0\<rparr>]))
           ''INVOKE'' (SignalEvent ''SHUTDOWN'' ''SIGTERM'') example_world)))
     = [(''INVOKE'', 5)]
   \<and> user (settle_in_flight (snd (executeHooks (createHookRegistry(''INVOKE'' \<mapsto>
             [\<lparr>handler = throwing ''T'' (Thrown ''boom'' False), priority = 0\<rparr>,
              \<lparr>handler = slow ''R'' 5, priority = 0\<rparr>]))
           ''INVOKE'' (SignalEvent ''SHUTDOWN'' ''SIGTERM'') example_world)))
     = [''T'', ''R'', ''R done'']"
  by (simp add: executeHooks_def hooks_get_def due_order_def throwing_def slow_def
      example_world_def fresh_process_def log_def class_not_in_scope_def
      settle_in_flight_def)

section \<open>The protocol client\<close>

lemma makeRequest_globals:
  "makeRequest rq w = (r, w') \<Longrightarrow> globals w' = globals w"
  by (auto simp: makeRequest_def split: host_reply.splits if_splits)

lemma client_register_globals:
  "globals (snd (client_register opts events w)) = globals w"
  by (auto simp: client_register_def dest: makeRequest_globals
      split: prod.splits sum.splits body.splits)

lemma nextEvent_globals:
  "globals (snd (nextEvent extId w)) = globals w"
  by (auto simp: nextEvent_def dest: makeRequest_globals
      split: prod.splits sum.splits body.splits)

lemma report_error_unbound:
  "globals w ''extensionId'' = None
     \<Longrightarrow> report_error at what err w = (Some (ReferenceError ''extensionId is not defined''), w)"
  by (simp add: report_error_def)

text \<open>
  Registration does not bind the name either: the identifier the host sends is returned
  to the caller and kept nowhere in the client.
\<close>

lemma report_after_register_unbound:
  assumes "globals w ''extensionId'' = None"
  shows "reportInitError err (snd (client_register opts events w))
           = (Some (ReferenceError ''extensionId is not defined''),
              snd (client_register opts events w))"
  using assms report_error_unbound [of "snd (client_register opts events w)"]
  by (simp add: reportInitError_def client_register_globals)

text \<open>The errors of the shipped \<open>nextEvent\<close> never carry the fatal flag.\<close>

lemma nextEvent_never_fatal:
  "nextEvent extId w = (Inl e, w') \<Longrightarrow> \<not> is_fatal e"
  by (auto simp: nextEvent_def makeRequest_def
      split: if_splits prod.splits sum.splits body.splits host_reply.splits)

text \<open>
  C2. In a process that has just started, with no identifier known anywhere,
  \<open>reportInitError\<close> and \<open>reportExitError\<close> fail for every error argument with a
  ReferenceError on the name \<open>extensionId\<close>: the test that would throw \<open>INVALID_STATE\<close>
  is never evaluated, and the error they fail with has no code \<open>INVALID_STATE\<close>.
\<close>

theorem report_error_fails_with_reference_error:
  "reportInitError err (fresh_process host u)
     = (Some (ReferenceError ''extensionId is not defined''), fresh_process host u)
   \<and> reportExitError err (fresh_process host u)
     = (Some (ReferenceError ''extensionId is not defined''), fresh_process host u)
   \<and> code_of (ReferenceError ''extensionId is not defined'') \<noteq> Some ''INVALID_STATE''"
  by (simp add: reportInitError_def reportExitError_def report_error_def fresh_process_def)

section \<open>The controller\<close>

subsection \<open>Construction\<close>

text \<open>
  C9. Constructing the controller succeeds exactly when \<open>extensionName\<close> is present,
  \<open>extensionType\<close> is 'internal' or 'external' and \<open>initLoad\<close> is 'before' or 'after';
  every failure is an \<open>INIT_ERROR\<close>; and an options object without \<open>initLoad\<close> always
  fails, whatever its other properties.
\<close>

theorem constructor_requires_initLoad:
  "((\<exists>c. (new_LambdaHooks options :: js_error + 'u lambda_hooks) = Inr c)
      = (truthy (extensionName options)
         \<and> given_extensionType options \<in> {Some ''internal'', Some ''external''}
         \<and> given_initLoad options \<in> {Some ''before'', Some ''after''}))
   \<and> (\<forall>e. (new_LambdaHooks options :: js_error + 'u lambda_hooks) = Inl e
          \<longrightarrow> code_of e = Some ''INIT_ERROR'')
   \<and> (given_initLoad options = None
        \<longrightarrow> (\<exists>e. (new_LambdaHooks options :: js_error + 'u lambda_hooks) = Inl e
                  \<and> code_of e = Some ''INIT_ERROR''))"
  by (auto simp: new_LambdaHooks_def init_error_def)

theorem constructor_requires_initLoad_witness:
  "given_initLoad (example_options\<lparr>given_initLoad := None\<rparr>) = None
   \<and> truthy (extensionName (example_options\<lparr>given_initLoad := None\<rparr>))
   \<and> given_extensionType (example_options\<lparr>given_initLoad := None\<rparr>) = Some ''internal''
   \<and> case_sum code_of (\<lambda>c. None)
        (new_LambdaHooks (example_options\<lparr>given_initLoad := None\<rparr>)
           :: js_error + string list lambda_hooks) = Some ''INIT_ERROR''"
proof -
  let ?opts = "example_options\<lparr>given_initLoad := None\<rparr>"
  have omitted: "given_initLoad ?opts = None"
    by simp
  have others: "truthy (extensionName ?opts) \<and> given_extensionType ?opts = Some ''internal''"
    by (simp add: example_options_def truthy_def)
  from constructor_requires_initLoad [where options = ?opts and 'u = "string list"] omitted
  obtain e where "(new_LambdaHooks ?opts :: js_error + string list lambda_hooks) = Inl e"
    and "code_of e = Some ''INIT_ERROR''"
    by blast
  then have "case_sum code_of (\<lambda>c. None)
        (new_LambdaHooks ?opts :: js_error + string list lambda_hooks) = Some ''INIT_ERROR''"
    by simp
  with omitted others show ?thesis
    by (intro conjI) simp_all
qed

subsection \<open>The example run\<close>

lemma example_built:
  "new_LambdaHooks example_options = Inr c
     \<Longrightarrow> onShutdown c (Single (Fn (recording ''bye''))) None = (None, example_controller)"
  by (auto simp add: new_LambdaHooks_def example_options_def truthy_def onShutdown_def
      register_def hooks_get_def createHookRegistry_def example_controller_def
      sort_hooks_def default_priority_def fun_upd_twist)

lemma example_started:
  "start example_controller example_world = (None, running_controller, running_world)"
  by (simp add: start_def example_controller_def running_controller_def fresh_process_def
      createExtensionClient_def client_register_def makeRequest_def example_host_def
      truthy_def start_init_def executeHooks_def hooks_get_def createHookRegistry_def
      example_world_def running_world_def)

lemma example_terminated:
  "startEventLoop (Suc 0) running_controller running_world
     = Some (terminated_controller, terminated_world)"
  by (simp add: loop_body_def handleShutdown_def executeHooks_def running_controller_def
      example_controller_def hooks_get_def due_order_def recording_def
      running_world_def example_world_def fresh_process_def createExtensionClient_def
      nextEvent_def truthy_def makeRequest_def example_host_def terminated_controller_def
      terminated_world_def split: prod.splits)

lemma example_restarted:
  "fst (start terminated_controller terminated_world) = None"
  by (simp add: start_def example_controller_def running_controller_def fresh_process_def
      createExtensionClient_def client_register_def makeRequest_def example_host_def
      truthy_def start_init_def executeHooks_def hooks_get_def createHookRegistry_def
      example_world_def running_world_def terminated_controller_def terminated_world_def)

subsection \<open>start\<close>

lemma start_failed_result:
  "fst (start_failed c e w)
     = Some (LambdaHookError ''EXTENSION_REGISTRATION_FAILED''
               ''Failed to register extension with Lambda'' (Some e) False)"
  by (simp add: start_failed_def Let_def split: prod.splits option.splits)

lemma start_init_result:
  "fst (start_init c r w) = None
   \<or> (\<exists>e. fst (start_init c r w)
            = Some (LambdaHookError ''EXTENSION_REGISTRATION_FAILED''
                      ''Failed to register extension with Lambda'' (Some e) False))"
  by (auto simp: start_init_def start_failed_result split: prod.splits option.splits)

lemma start_result_when_idle:
  assumes "\<not> isRunning c"
  shows "fst (start c w) = None
         \<or> (\<exists>e. fst (start c w)
               = Some (LambdaHookError ''EXTENSION_REGISTRATION_FAILED''
                         ''Failed to register extension with Lambda'' (Some e) False))"
proof (cases "c_register (extensionClient c)
                (if extensionType c = ''internal'' then [''INVOKE'']
                 else [''INVOKE'', ''SHUTDOWN'']) w")
  case (Pair r w1)
  show ?thesis
  proof (cases r)
    case (Inl e)
    with Pair assms show ?thesis
      by (simp add: start_def start_failed_result)
  next
    case (Inr reg)
    let ?c1 = "c\<lparr>extensionId := Some (r_extensionId reg)\<rparr>"
    show ?thesis
    proof (cases "initLoad c = ''after''")
      case False
      with Pair Inr assms show ?thesis
        using start_init_result [of ?c1 reg w1] by (simp add: start_def Let_def)
    next
      case True
      obtain r2 w2 where next_ev:
        "c_nextEvent (extensionClient c) (Some (r_extensionId reg)) w1 = (r2, w2)"
        by (cases "c_nextEvent (extensionClient c) (Some (r_extensionId reg)) w1")
      show ?thesis
      proof (cases r2)
        case (Inl e)
        with Pair Inr assms True next_ev show ?thesis
          by (simp add: start_def Let_def start_failed_result)
      next
        case (Inr ev)
        with Pair \<open>r = Inr reg\<close> assms True next_ev show ?thesis
          using start_init_result [of ?c1 reg w2] by (simp add: start_def Let_def)
      qed
    qed
  qed
qed

text \<open>
  C4 (as stated). The example controller is started, its poll loop receives the SHUTDOWN
  event and ends, and the controller is terminated. A second call to \<open>start\<close> then does
  not fail with \<open>ALREADY_RUNNING\<close>: it registers again and succeeds.
\<close>

theorem start_after_termination_is_accepted:
  "start example_controller example_world = (None, running_controller, running_world)
   \<and> startEventLoop (Suc 0) running_controller running_world
       = Some (terminated_controller, terminated_world)
   \<and> fst (start terminated_controller terminated_world) \<noteq> Some already_running"
proof (intro conjI)
  show "start example_controller example_world = (None, running_controller, running_world)"
    by (rule example_started)
  show "startEventLoop (Suc 0) running_controller running_world
          = Some (terminated_controller, terminated_world)"
    by (rule example_terminated)
  show "fst (start terminated_controller terminated_world) \<noteq> Some already_running"
    by (simp only: example_restarted) simp
qed

text \<open>
  C4 (amended). A call to \<open>start\<close> fails with \<open>ALREADY_RUNNING\<close> exactly when the
  running flag of the controller is set, that is after an earlier \<open>start\<close> has
  registered, run the INIT hooks and launched the loop, and before a SHUTDOWN event or a
  fatal poll error has cleared the flag. Such a call changes neither the controller nor
  anything outside it, so the loop of the first call goes on as before.
\<close>

theorem start_rejected_iff_running:
  "(isRunning c \<longrightarrow> start c w = (Some already_running, c, w))
   \<and> (\<not> isRunning c \<longrightarrow> fst (start c w) \<noteq> Some already_running)
   \<and> code_of already_running = Some ''ALREADY_RUNNING''"
proof (intro conjI impI)
  assume "isRunning c"
  then show "start c w = (Some already_running, c, w)"
    by (simp add: start_def)
next
  assume "\<not> isRunning c"
  from start_result_when_idle [OF this, of w]
  show "fst (start c w) \<noteq> Some already_running"
    by (auto simp: already_running_def)
next
  show "code_of already_running = Some ''ALREADY_RUNNING''"
    by (simp add: already_running_def)
qed

theorem start_rejected_iff_running_witness:
  "isRunning running_controller
   \<and> start running_controller running_world
       = (Some already_running, running_controller, running_world)
   \<and> \<not> isRunning terminated_controller
   \<and> fst (start terminated_controller terminated_world) \<noteq> Some already_running"
proof -
  have on: "isRunning running_controller"
    by (simp add: running_controller_def)
  have off: "\<not> isRunning terminated_controller"
    by (simp add: terminated_controller_def)
  from start_rejected_iff_running [of running_controller running_world] on
  have first: "start running_controller running_world
                 = (Some already_running, running_controller, running_world)"
    by blast
  from start_rejected_iff_running [of terminated_controller terminated_world] off
  have second: "fst (start terminated_controller terminated_world) \<noteq> Some already_running"
    by blast
  from on first off second show ?thesis
    by (intro conjI)
qed

subsection \<open>The poll loop\<close>

text \<open>
  C7. When the poll of a running controller yields an event of type SHUTDOWN, the loop
  ends in that pass for every bound of at least one pass: the world it leaves is the
  world after one call of \<open>executeHooks\<close> for the SHUTDOWN phase on the world right
  after the poll, with one more console line when that call failed; the running flag is
  cleared; and the loop, entered again, makes no further pass.
\<close>

theorem shutdown_event_ends_loop:
  assumes "isRunning c"
    and "c_nextEvent (extensionClient c) (extensionId c) w = (Inr ev, w1)"
    and "eventType ev = Some ''SHUTDOWN''"
  shows "startEventLoop (Suc n) c w
           = Some (c\<lparr>isRunning := False\<rparr>,
                   (case executeHooks (hookRegistry c) ''SHUTDOWN'' (Polled ev) w1 of
                      (None, w2) \<Rightarrow> w2
                    | (Some e, w2) \<Rightarrow> log ''Error executing shutdown hooks:'' w2))
       \<and> (\<forall>w' m. startEventLoop m (c\<lparr>isRunning := False\<rparr>) w'
                     = Some (c\<lparr>isRunning := False\<rparr>, w'))"
proof
  show "startEventLoop (Suc n) c w
           = Some (c\<lparr>isRunning := False\<rparr>,
                   (case executeHooks (hookRegistry c) ''SHUTDOWN'' (Polled ev) w1 of
                      (None, w2) \<Rightarrow> w2
                    | (Some e, w2) \<Rightarrow> log ''Error executing shutdown hooks:'' w2))"
    using assms
    by (simp add: loop_body_def handleShutdown_def split: prod.splits option.splits)
  show "\<forall>w' m. startEventLoop m (c\<lparr>isRunning := False\<rparr>) w'
                  = Some (c\<lparr>isRunning := False\<rparr>, w')"
  proof (intro allI)
    fix w' :: "'a world" and m
    show "startEventLoop m (c\<lparr>isRunning := False\<rparr>) w' = Some (c\<lparr>isRunning := False\<rparr>, w')"
      by (cases m) simp_all
  qed
qed

text \<open>
  The witness is the running example controller with a SHUTDOWN handler that throws: the
  handler has run once, both failures are on the console, and the loop has ended.
\<close>

theorem shutdown_event_ends_loop_witness:
  "isRunning (running_controller\<lparr>hookRegistry := createHookRegistry(''SHUTDOWN'' \<mapsto>
       [\<lparr>handler = throwing ''T'' (Thrown ''boom'' False), priority = 0\<rparr>])\<rparr>)
   \<and> eventType \<lparr>eventType = Some ''SHUTDOWN'', deadlineMs = None, requestId = None,
                  invokedFunctionArn = None, tracing = None,
                  shutdownReason = Some ''SPINDOWN''\<rparr> = Some ''SHUTDOWN''
   \<and> map_option (\<lambda>(c, w). (isRunning c, user w, console w, length (requests w)))
        (startEventLoop (Suc 0)
           (running_controller\<lparr>hookRegistry := createHookRegistry(''SHUTDOWN'' \<mapsto>
              [\<lparr>handler = throwing ''T'' (Thrown ''boom'' False), priority = 0\<rparr>])\<rparr>)
           running_world)
       = Some (False, [''T''],
               [''Error executing SHUTDOWN hook:'', ''Error executing shutdown hooks:''], 2)"
proof -
  let ?c = "running_controller\<lparr>hookRegistry := createHookRegistry(''SHUTDOWN'' \<mapsto>
              [\<lparr>handler = throwing ''T'' (Thrown ''boom'' False), priority = 0\<rparr>])\<rparr>"
  let ?ev = "\<lparr>eventType = Some ''SHUTDOWN'', deadlineMs = None, requestId = None,
              invokedFunctionArn = None, tracing = None,
              shutdownReason = Some ''SPINDOWN''\<rparr>"
  let ?w1 = "running_world\<lparr>requests := requests running_world @
               [\<lparr>http_method = ''GET'', path = ''event/next'',
                 headers = [(''Lambda-Extension-Identifier'', ''ext-1'')],
                 payload = None\<rparr>]\<rparr>"
  have on: "isRunning ?c"
    by (simp add: running_controller_def)
  have poll: "c_nextEvent (extensionClient ?c) (extensionId ?c) running_world = (Inr ?ev, ?w1)"
    by (simp add: running_controller_def example_controller_def createExtensionClient_def
        nextEvent_def truthy_def makeRequest_def running_world_def example_world_def
        fresh_process_def example_host_def)
  have tag: "eventType ?ev = Some ''SHUTDOWN''"
    by simp
  have dispatch: "executeHooks (hookRegistry ?c) ''SHUTDOWN'' (Polled ?ev) ?w1
      = (Some class_not_in_scope,
         ?w1\<lparr>user := [''T''], console := [''Error executing SHUTDOWN hook:'']\<rparr>)"
    by (simp add: executeHooks_def hooks_get_def due_order_def throwing_def
        log_def running_world_def example_world_def fresh_process_def)
  from shutdown_event_ends_loop [where c = ?c and w = running_world and ev = ?ev
                                   and ?w1.0 = ?w1 and n = 0, OF on poll tag]
  have "startEventLoop (Suc 0) ?c running_world
           = Some (?c\<lparr>isRunning := False\<rparr>,
                   (case executeHooks (hookRegistry ?c) ''SHUTDOWN'' (Polled ?ev) ?w1 of
                      (None, w2) \<Rightarrow> w2
                    | (Some e, w2) \<Rightarrow> log ''Error executing shutdown hooks:'' w2))"
    by (rule conjunct1)
  then have "map_option (\<lambda>(c, w). (isRunning c, user w, console w, length (requests w)))
               (startEventLoop (Suc 0) ?c running_world)
       = Some (False, [''T''],
               [''Error executing SHUTDOWN hook:'', ''Error executing shutdown hooks:''], 2)"
    by (simp only: dispatch)
       (simp add: log_def running_world_def example_world_def fresh_process_def)
  with on tag show ?thesis
    by (intro conjI)
qed

text \<open>
  C8. When \<open>nextEvent\<close> fails in a pass of the loop, what the loop does depends on the
  error through its fatal flag only. With the flag set, the error is logged, the exit
  report is attempted, a failure of the report adds one console line and nothing else,
  the running flag is cleared and the loop ends. With the flag not set, the error is
  logged, the controller is unchanged and the loop goes on to its next pass.
\<close>

theorem poll_error_reaction:
  assumes "isRunning c"
    and "c_nextEvent (extensionClient c) (extensionId c) w = (Inl e, w1)"
  shows "(is_fatal e \<longrightarrow>
            loop_body c w
              = (Break, c\<lparr>isRunning := False\<rparr>,
                 (case c_reportExitError (extensionClient c) e (log ''Error in event loop:'' w1) of
                    (None, w2) \<Rightarrow> w2
                  | (Some reportError, w2) \<Rightarrow> log ''Failed to report exit error:'' w2))
            \<and> startEventLoop (Suc n) c w
              = Some (c\<lparr>isRunning := False\<rparr>,
                 (case c_reportExitError (extensionClient c) e (log ''Error in event loop:'' w1) of
                    (None, w2) \<Rightarrow> w2
                  | (Some reportError, w2) \<Rightarrow> log ''Failed to report exit error:'' w2)))
       \<and> (\<not> is_fatal e \<longrightarrow>
            loop_body c w = (Continue, c, log ''Error in event loop:'' w1)
            \<and> startEventLoop (Suc n) c w = startEventLoop n c (log ''Error in event loop:'' w1))"
  using assms
  by (simp add: loop_body_def split: prod.splits option.splits)

theorem poll_error_reaction_witness:
  "isRunning (running_controller\<lparr>extensionClient :=
       client_rejecting (LambdaHookError ''API_ERROR'' ''gone'' None True)\<rparr>)
   \<and> is_fatal (LambdaHookError ''API_ERROR'' ''gone'' None True)
   \<and> map_option (\<lambda>(c, w). (isRunning c, console w))
        (startEventLoop (Suc 0)
           (running_controller\<lparr>extensionClient :=
              client_rejecting (LambdaHookError ''API_ERROR'' ''gone'' None True)\<rparr>)
           running_world)
       = Some (False, [''Error in event loop:'', ''Failed to report exit error:''])
   \<and> \<not> is_fatal (LambdaHookError ''API_ERROR'' ''busy'' None False)
   \<and> loop_body (running_controller\<lparr>extensionClient :=
              client_rejecting (LambdaHookError ''API_ERROR'' ''busy'' None False)\<rparr>)
         running_world
       = (Continue,
          running_controller\<lparr>extensionClient :=
              client_rejecting (LambdaHookError ''API_ERROR'' ''busy'' None False)\<rparr>,
          log ''Error in event loop:'' running_world)"
proof -
  let ?gone = "LambdaHookError ''API_ERROR'' ''gone'' None True"
  let ?busy = "LambdaHookError ''API_ERROR'' ''busy'' None False"
  let ?c = "running_controller\<lparr>extensionClient := client_rejecting ?gone\<rparr>"
  let ?d = "running_controller\<lparr>extensionClient := client_rejecting ?busy\<rparr>"
  have on: "isRunning ?c" and on': "isRunning ?d"
    by (simp_all add: running_controller_def)
  have poll: "c_nextEvent (extensionClient ?c) (extensionId ?c) running_world
                = (Inl ?gone, running_world)"
    by (simp add: client_rejecting_def)
  have poll': "c_nextEvent (extensionClient ?d) (extensionId ?d) running_world
                = (Inl ?busy, running_world)"
    by (simp add: client_rejecting_def)
  have fatal: "is_fatal ?gone" and not_fatal: "\<not> is_fatal ?busy"
    by simp_all
  have report: "c_reportExitError (extensionClient ?c) ?gone
                   (log ''Error in event loop:'' running_world)
                = (Some (ReferenceError ''extensionId is not defined''),
                   log ''Error in event loop:'' running_world)"
    by (simp add: client_rejecting_def createExtensionClient_def reportExitError_def
        report_error_def log_def running_world_def example_world_def fresh_process_def)
  from poll_error_reaction [where c = ?c and w = running_world and e = ?gone
                              and ?w1.0 = running_world and n = 0, OF on poll] fatal
  have "startEventLoop (Suc 0) ?c running_world
              = Some (?c\<lparr>isRunning := False\<rparr>,
                 (case c_reportExitError (extensionClient ?c) ?gone
                         (log ''Error in event loop:'' running_world) of
                    (None, w2) \<Rightarrow> w2
                  | (Some reportError, w2) \<Rightarrow> log ''Failed to report exit error:'' w2))"
    by blast
  then have stop: "map_option (\<lambda>(c, w). (isRunning c, console w))
        (startEventLoop (Suc 0) ?c running_world)
       = Some (False, [''Error in event loop:'', ''Failed to report exit error:''])"
    by (simp only: report)
       (simp add: log_def running_world_def example_world_def fresh_process_def)
  from poll_error_reaction [where c = ?d and w = running_world and e = ?busy
                              and ?w1.0 = running_world and n = 0, OF on' poll'] not_fatal
  have retry: "loop_body ?d running_world
                 = (Continue, ?d, log ''Error in event loop:'' running_world)"
    by blast
  from on fatal stop not_fatal retry show ?thesis
    by (intro conjI)
qed

subsection \<open>Termination signals\<close>

lemma deliver_signal_runs_no_handler:
  "user (snd (deliver_signal signal c w)) = user w"
  by (simp add: deliver_signal_def process_exit_with_def log_def)

lemma handleSignal_bound_dispatches_once:
  "user (snd (snd (handleSignal Instance signal c w)))
     = user (snd (executeHooks (hookRegistry c) ''SHUTDOWN'' (SignalEvent ''SHUTDOWN'' signal)
                    (log (''Received '' @ signal @ '', Gracefully shutting down...'') w)))"
  by (simp add: handleShutdown_def process_exit_with_def log_def
      split: prod.splits option.splits)

text \<open>
  C3. The example controller has one SHUTDOWN handler and is running, with the listeners
  that \<open>start\<close> installed. When SIGTERM is delivered, the handler is not run (the
  caller's state stays empty, where one shutdown dispatch leaves the handler's note), the
  process exits with status 0, and a SIGINT after that changes nothing.
\<close>

theorem signal_runs_no_shutdown_hook:
  "start example_controller example_world = (None, running_controller, running_world)
   \<and> signal_listeners running_world = [''SIGINT'', ''SIGTERM'']
   \<and> user (snd (deliver_signal ''SIGTERM'' running_controller running_world)) = []
   \<and> process_exit (snd (deliver_signal ''SIGTERM'' running_controller running_world)) = Some 0
   \<and> user (snd (handleShutdown running_controller (SignalEvent ''SHUTDOWN'' ''SIGTERM'')
                  running_world)) = [''bye'']
   \<and> deliver_signal ''SIGINT''
        (fst (deliver_signal ''SIGTERM'' running_controller running_world))
        (snd (deliver_signal ''SIGTERM'' running_controller running_world))
       = deliver_signal ''SIGTERM'' running_controller running_world"
proof (intro conjI)
  show "start example_controller example_world = (None, running_controller, running_world)"
    by (rule example_started)
  show "signal_listeners running_world = [''SIGINT'', ''SIGTERM'']"
    by (simp add: running_world_def)
  show "user (snd (deliver_signal ''SIGTERM'' running_controller running_world)) = []"
    by (simp add: deliver_signal_runs_no_handler running_world_def example_world_def
        fresh_process_def)
  show exited:
    "process_exit (snd (deliver_signal ''SIGTERM'' running_controller running_world)) = Some 0"
    by (simp add: deliver_signal_def running_world_def example_world_def fresh_process_def
        process_exit_with_def log_def)
  show "user (snd (handleShutdown running_controller (SignalEvent ''SHUTDOWN'' ''SIGTERM'')
                  running_world)) = [''bye'']"
    by (simp add: handleShutdown_def executeHooks_def running_controller_def
        example_controller_def hooks_get_def due_order_def recording_def
        running_world_def example_world_def fresh_process_def split: prod.splits)
  show "deliver_signal ''SIGINT''
        (fst (deliver_signal ''SIGTERM'' running_controller running_world))
        (snd (deliver_signal ''SIGTERM'' running_controller running_world))
       = deliver_signal ''SIGTERM'' running_controller running_world"
    using exited
    by (simp add: deliver_signal_def
          [of "''SIGINT''" "fst (deliver_signal ''SIGTERM'' running_controller running_world)"])
qed

end
